theory Spec2Isabelle
  imports Main "HOL-Library.Sublist"
begin

section \<open>The filesystem the uninstaller works on\<close>

text \<open>
  A path is the list of its components below the root; every path handled by the program
  is absolute (\<open>Path.cwd()\<close>, or a literal starting with \<open>~\<close> that \<open>expanduser\<close> puts
  under the home directory). A filesystem maps a path to the node found there, without
  following any symbolic link. A link stores the absolute path it points to.
\<close>

type_synonym path = "string list"

datatype node = File | Dir | Link path

type_synonym filesystem = "path \<Rightarrow> node option"

text \<open>
  Path resolution as the operating system does it: the components are walked from the root,
  a directory is entered, a symbolic link is followed (at most \<open>n\<close> of them, afterwards the
  walk fails as with ELOOP), and a component below a missing entry or below a regular file
  fails (ENOENT, ENOTDIR). The last component may be missing: the walk then returns
  the place where it would be.
\<close>

fun walk :: "nat \<Rightarrow> filesystem \<Rightarrow> path \<Rightarrow> path \<Rightarrow> path option" where
  "walk n fs cur [] = Some cur"
| "walk n fs cur (c # cs) =
     (case fs (cur @ [c]) of
        Some (Link t) \<Rightarrow> (case n of 0 \<Rightarrow> None | Suc m \<Rightarrow> walk m fs [] (t @ cs))
      | Some Dir \<Rightarrow> walk n fs (cur @ [c]) cs
      | Some File \<Rightarrow> if cs = [] then Some (cur @ [c]) else None
      | None \<Rightarrow> if cs = [] then Some (cur @ [c]) else None)"

definition max_links :: nat where
  "max_links = 40"

text \<open>\<open>Path.resolve()\<close> (not strict): the canonical path, or the path itself when the walk fails.\<close>

definition resolve :: "filesystem \<Rightarrow> path \<Rightarrow> path" where
  "resolve fs p = (case walk max_links fs [] p of Some q \<Rightarrow> q | None \<Rightarrow> p)"

text \<open>\<open>Path.exists()\<close> and \<open>Path.is_dir()\<close> follow links and answer False on any error.\<close>

definition path_exists :: "filesystem \<Rightarrow> path \<Rightarrow> bool" where
  "path_exists fs p = (case walk max_links fs [] p of Some q \<Rightarrow> fs q \<noteq> None | None \<Rightarrow> False)"

definition is_dir :: "filesystem \<Rightarrow> path \<Rightarrow> bool" where
  "is_dir fs p = (case walk max_links fs [] p of Some q \<Rightarrow> fs q = Some Dir | None \<Rightarrow> False)"

text \<open>
  Where the entry named by a path lies, its last component not followed (as \<open>lstat\<close>,
  \<open>unlink\<close> and \<open>rmdir\<close> see it): the parent is resolved and has to be a directory.
\<close>

definition locate :: "filesystem \<Rightarrow> path \<Rightarrow> path option" where
  "locate fs p =
     (if p = [] then Some []
      else case walk max_links fs [] (butlast p) of
             None \<Rightarrow> None
           | Some d \<Rightarrow> if d = [] \<or> fs d = Some Dir then Some (d @ [last p]) else None)"

definition is_symlink :: "filesystem \<Rightarrow> path \<Rightarrow> bool" where
  "is_symlink fs p =
     (case locate fs p of
        None \<Rightarrow> False
      | Some q \<Rightarrow> (case fs q of Some (Link t) \<Rightarrow> True | _ \<Rightarrow> False))"

subsection \<open>What the run cannot control\<close>

datatype proc_result = Raised | Exited int

text \<open>
  The environment of one run: the home and working directories, which entries \<open>os.remove\<close>
  is refused on, on which directories \<open>shutil.rmtree\<close> fails and what it leaves below them
  when it does (it stops at the first error, so part of the tree may be gone already), and
  the package manager: a command line and the installed flag give the result of the
  subprocess and the new flag.
\<close>

record env =
  home :: path
  cwd :: path
  executable :: string
  deny :: "path \<Rightarrow> bool"
  rmtree_fail :: "path \<Rightarrow> bool"
  rmtree_keep :: "path \<Rightarrow> path \<Rightarrow> bool"
  run_proc :: "string list \<Rightarrow> bool \<Rightarrow> proc_result \<times> bool"

text \<open>\<open>os.remove\<close>: None is an exception (missing entry, a directory, no permission).\<close>

definition os_remove :: "env \<Rightarrow> filesystem \<Rightarrow> path \<Rightarrow> filesystem option" where
  "os_remove e fs p =
     (case locate fs p of
        None \<Rightarrow> None
      | Some q \<Rightarrow>
          (case fs q of
             None \<Rightarrow> None
           | Some Dir \<Rightarrow> None
           | Some _ \<Rightarrow> if deny e q then None else Some (fs(q := None))))"

text \<open>
  \<open>shutil.rmtree\<close>: the flag is False when it raised. It refuses a symbolic link and
  anything that is not a directory; on success the directory and everything below it is
  gone; on failure the directory stays, with the entries below it that the environment
  says were not reached.
\<close>

definition rmtree :: "env \<Rightarrow> filesystem \<Rightarrow> path \<Rightarrow> bool \<times> filesystem" where
  "rmtree e fs p =
     (case locate fs p of
        None \<Rightarrow> (False, fs)
      | Some q \<Rightarrow>
          (case fs q of
             Some Dir \<Rightarrow>
               if rmtree_fail e q
               then (False, \<lambda>x. if strict_prefix q x \<and> \<not> rmtree_keep e q x then None else fs x)
               else (True, \<lambda>x. if prefix q x then None else fs x)
           | _ \<Rightarrow> (False, fs)))"

section \<open>The uninstaller\<close>

datatype notice =
    Banner | DangerWarning | Cancelled | Starting
  | PipDetected | PipUninstalled
  | RemovedSymlink path | FailedSymlink path | RemovedOldSymlink path
  | RemovedDirectory path | FailedDirectory path
  | FoundConfig path | NoConfig
  | DetectedManual path | RemovedFile path | FailedFile string
  | ArtifactsRemoved | ParentNote path | NotInRoot
  | Complete | ManualRemain

text \<open>The state a run changes: the filesystem, whether the package is installed, what was
  printed (oldest first) and which commands were started.\<close>

record world =
  fs :: filesystem
  installed :: bool
  out :: "notice list"
  calls :: "string list list"

definition print :: "notice \<Rightarrow> world \<Rightarrow> world" where
  "print m w = w\<lparr>out := out w @ [m]\<rparr>"

definition remove_symlinks :: "env \<Rightarrow> world \<Rightarrow> world" where
  "remove_symlinks e w =
     (let symlink_path = home e @ [''.local'', ''bin'', ''sentinelX''];
          w1 = (if path_exists (fs w) symlink_path \<or> is_symlink (fs w) symlink_path
                then (case os_remove e (fs w) symlink_path of
                        Some f \<Rightarrow> print (RemovedSymlink symlink_path) (w\<lparr>fs := f\<rparr>)
                      | None \<Rightarrow> print (FailedSymlink symlink_path) w)
                else w);
          old_symlink = home e @ [''.local'', ''bin'', ''sentinelx'']
      in if path_exists (fs w1) old_symlink \<or> is_symlink (fs w1) old_symlink
         then (case os_remove e (fs w1) old_symlink of
                 Some f \<Rightarrow> print (RemovedOldSymlink old_symlink) (w1\<lparr>fs := f\<rparr>)
               | None \<Rightarrow> w1)
         else w1)"

definition remove_directory :: "env \<Rightarrow> path \<Rightarrow> world \<Rightarrow> bool \<times> world" where
  "remove_directory e p w =
     (let path = resolve (fs w) p
      in if path_exists (fs w) path \<and> is_dir (fs w) path
         then (case rmtree e (fs w) path of
                 (True, f) \<Rightarrow> (True, print (RemovedDirectory path) (w\<lparr>fs := f\<rparr>))
               | (False, f) \<Rightarrow> (False, print (FailedDirectory path) (w\<lparr>fs := f\<rparr>)))
         else (False, w))"

definition uninstall_pip_package :: "env \<Rightarrow> bool \<Rightarrow> world \<Rightarrow> bool \<times> world" where
  "uninstall_pip_package e force w =
     (let show_cmd = [executable e, ''-m'', ''pip'', ''show'', ''sentinelx''];
          w1 = w\<lparr>calls := calls w @ [show_cmd]\<rparr>
      in case run_proc e show_cmd (installed w) of
           (Raised, i) \<Rightarrow> (False, w1\<lparr>installed := i\<rparr>)
         | (Exited rc, i) \<Rightarrow>
             if rc = 0
             then (let w2 = print PipDetected (w1\<lparr>installed := i\<rparr>);
                       cmd = [executable e, ''-m'', ''pip'', ''uninstall'', ''sentinelx'']
                             @ (if force then [''-y''] else []);
                       w3 = w2\<lparr>calls := calls w2 @ [cmd]\<rparr>
                   in case run_proc e cmd (installed w3) of
                        (Exited rc2, j) \<Rightarrow>
                          if rc2 = 0 then (True, print PipUninstalled (w3\<lparr>installed := j\<rparr>))
                          else (False, w3\<lparr>installed := j\<rparr>)
                      | (Raised, j) \<Rightarrow> (False, w3\<lparr>installed := j\<rparr>))
             else (False, w1\<lparr>installed := i\<rparr>))"

definition remove_user_config :: "env \<Rightarrow> world \<Rightarrow> world" where
  "remove_user_config e w =
     (let config_path = home e @ [''.sentinelx'']
      in if path_exists (fs w) config_path
         then snd (remove_directory e config_path (print (FoundConfig config_path) w))
         else print NoConfig w)"

definition markers :: "path list" where
  "markers = [[''setup.py''], [''sentinelx'', ''config'', ''tools.yaml'']]"

definition targets :: "string list" where
  "targets = [''logs'', ''reports'', ''sentinelx'', ''sentinelx.egg-info'', ''build'', ''dist'',
              ''__pycache__'', ''assets'']"

definition files :: "string list" where
  "files = [''setup.py'', ''requirements.txt'', ''sentinelx_uninstall.py'', ''README.md'',
            ''sentinelx.py'']"

text \<open>The two loops of \<open>remove_local_artifacts\<close>, over any list of names.\<close>

fun remove_targets :: "env \<Rightarrow> string list \<Rightarrow> world \<Rightarrow> world" where
  "remove_targets e [] w = w"
| "remove_targets e (target # ts) w =
     (let target_path = cwd e @ [target]
      in remove_targets e ts
           (if path_exists (fs w) target_path then snd (remove_directory e target_path w) else w))"

fun remove_files :: "env \<Rightarrow> string list \<Rightarrow> world \<Rightarrow> world" where
  "remove_files e [] w = w"
| "remove_files e (file # rest) w =
     (let f_path = cwd e @ [file]
      in remove_files e rest
           (if path_exists (fs w) f_path \<and> file \<noteq> ''sentinelx_uninstall.py''
            then (case os_remove e (fs w) f_path of
                    Some f \<Rightarrow> print (RemovedFile f_path) (w\<lparr>fs := f\<rparr>)
                  | None \<Rightarrow> print (FailedFile file) w)
            else w))"

definition is_project_root :: "env \<Rightarrow> world \<Rightarrow> bool" where
  "is_project_root e w = list_ex (\<lambda>m. path_exists (fs w) (cwd e @ m)) markers"

text \<open>
  \<open>Path.cwd()\<close> is \<open>os.getcwd()\<close>: it raises FileNotFoundError when the working directory
  of the process has been removed. Nothing in \<open>remove_local_artifacts\<close> or \<open>main\<close>
  catches it.
\<close>

datatype error = FileNotFoundError

definition path_cwd :: "env \<Rightarrow> world \<Rightarrow> error + path" where
  "path_cwd e w = (if fs w (cwd e) = Some Dir then Inr (cwd e) else Inl FileNotFoundError)"

definition remove_local_artifacts :: "env \<Rightarrow> world \<Rightarrow> error + world" where
  "remove_local_artifacts e w =
     (case path_cwd e w of
        Inl err \<Rightarrow> Inl err
      | Inr d \<Rightarrow>
          if is_project_root e w
          then Inr (print (ParentNote d)
                 (print ArtifactsRemoved
                    (remove_files e files
                       (remove_targets e targets (print (DetectedManual d) w)))))
          else Inr (print NotInRoot w))"

text \<open>
  \<open>Confirm.ask\<close> as the script defines it when the console library is missing: the typed
  line, lower-cased, has to start with y.
\<close>

definition ask :: "string \<Rightarrow> bool" where
  "ask answer = (case answer of [] \<Rightarrow> False | c # _ \<Rightarrow> c = CHR ''y'' \<or> c = CHR ''Y'')"

text \<open>How a run of \<open>main\<close> ends: it returns, it leaves through \<open>sys.exit\<close>, or an
  exception escapes it.\<close>

datatype outcome = Returned | Exit int | Uncaught error

definition main :: "env \<Rightarrow> bool \<Rightarrow> string \<Rightarrow> world \<Rightarrow> outcome \<times> world" where
  "main e yes answer w =
     (let w0 = print Banner w
      in if \<not> yes \<and> \<not> ask answer
         then (Exit 0, print Cancelled (print DangerWarning w0))
         else (let w1 = print Starting (if \<not> yes then print DangerWarning w0 else w0);
                   w2 = snd (uninstall_pip_package e yes w1);
                   w3 = remove_symlinks e w2;
                   w4 = remove_user_config e w3
               in case remove_local_artifacts e w4 of
                    Inl err \<Rightarrow> (Uncaught err, w4)
                  | Inr w5 \<Rightarrow> (Returned, print ManualRemain (print Complete w5))))"

section \<open>The report writers\<close>

text \<open>
  \<open>sentinelx/core/reporting.py\<close> works below the working directory, so its paths are the
  working directory followed by the relative name. Its environment gives the working
  directory, the timestamp \<open>datetime.now().strftime("%Y%m%d_%H%M%S")\<close>, and the places where
  creating a directory or opening a file for writing is refused.
\<close>

record report_env =
  rcwd :: path
  timestamp :: string
  refuse_create :: "path \<Rightarrow> bool"

datatype report_error = OSError | ValueError

datatype report_notice = ReportSaved string | CsvSaved string

text \<open>The state: the filesystem, the rows written to each CSV file, and what was printed.\<close>

record shelf =
  tree :: filesystem
  rows :: "path \<Rightarrow> string list list option"
  printed :: "report_notice list"

text \<open>
  \<open>os.makedirs("reports")\<close> for a single component: it raises when the parent is not a
  directory, when anything is already at that place (a dangling link too), or when the
  creation is refused.
\<close>

definition makedirs :: "report_env \<Rightarrow> filesystem \<Rightarrow> path \<Rightarrow> report_error + filesystem" where
  "makedirs re f p =
     (case locate f p of
        None \<Rightarrow> Inl OSError
      | Some q \<Rightarrow> if f q \<noteq> None \<or> refuse_create re q then Inl OSError
                  else Inr (f(q \<mapsto> Dir)))"

definition generate_filename :: "report_env \<Rightarrow> string \<Rightarrow> shelf \<Rightarrow> report_error + string \<times> shelf" where
  "generate_filename re pre s =
     (let name = ''reports/'' @ pre @ ''_'' @ timestamp re
      in if \<not> path_exists (tree s) (rcwd re @ [''reports''])
         then (case makedirs re (tree s) (rcwd re @ [''reports'']) of
                 Inl err \<Rightarrow> Inl err
               | Inr f \<Rightarrow> Inr (name, s\<lparr>tree := f\<rparr>))
         else Inr (name, s))"

text \<open>
  A file name made by \<open>generate_filename\<close> is \<open>reports/\<close> and one more component; \<open>open\<close> with
  mode w follows links, creates the file when it is missing and raises on a directory, on
  a missing parent and on a refusal. The file is empty afterwards.
\<close>

definition open_w :: "report_env \<Rightarrow> string \<Rightarrow> shelf \<Rightarrow> report_error + path \<times> shelf" where
  "open_w re filename s =
     (case walk max_links (tree s) [] (rcwd re @ [''reports'', drop 8 filename]) of
        None \<Rightarrow> Inl OSError
      | Some q \<Rightarrow>
          if tree s q = Some Dir \<or> refuse_create re q then Inl OSError
          else Inr (q, s\<lparr>tree := (tree s)(q \<mapsto> File), rows := (rows s)(q \<mapsto> [])\<rparr>))"

text \<open>
  A record is a dictionary, kept as the list of its items. \<open>csv.DictWriter\<close> writes the
  values of the field names in order, an empty string for a missing one, and raises
  ValueError on a record with a key that is not a field name; the rows before it are
  written.
\<close>

type_synonym record_dict = "(string \<times> string) list"

definition row_of :: "string list \<Rightarrow> record_dict \<Rightarrow> report_error + string list" where
  "row_of keys d =
     (if \<forall>k \<in> set (map fst d). k \<in> set keys
      then Inr (map (\<lambda>k. case map_of d k of None \<Rightarrow> [] | Some v \<Rightarrow> v) keys)
      else Inl ValueError)"

fun writerows :: "string list \<Rightarrow> path \<Rightarrow> record_dict list \<Rightarrow> shelf \<Rightarrow> report_error + shelf" where
  "writerows keys q [] s = Inr s"
| "writerows keys q (d # ds) s =
     (case row_of keys d of
        Inl err \<Rightarrow> Inl err
      | Inr r \<Rightarrow>
          writerows keys q ds
            (s\<lparr>rows := (rows s)(q \<mapsto> (case rows s q of None \<Rightarrow> [] | Some rs \<Rightarrow> rs) @ [r])\<rparr>))"

definition save_report_csv :: "report_env \<Rightarrow> record_dict list \<Rightarrow> shelf \<Rightarrow> report_error + shelf" where
  "save_report_csv re data_list s =
     (case generate_filename re ''report'' s of
        Inl err \<Rightarrow> Inl err
      | Inr (name, s1) \<Rightarrow>
          (let filename = name @ ''.csv''
           in case data_list of
                [] \<Rightarrow> Inr s1
              | first # _ \<Rightarrow>
                  (let keys = map fst first
                   in case open_w re filename s1 of
                        Inl err \<Rightarrow> Inl err
                      | Inr (q, s2) \<Rightarrow>
                          (case writerows keys q data_list
                                  (s2\<lparr>rows := (rows s2)(q \<mapsto> [keys])\<rparr>) of
                             Inl err \<Rightarrow> Inl err
                           | Inr s3 \<Rightarrow> Inr (s3\<lparr>printed := printed s3 @ [CsvSaved filename]\<rparr>)))))"

section \<open>A concrete installation\<close>

text \<open>
  A small machine to run the functions on: a checkout in \<open>/proj\<close> with a marker file, a
  \<open>logs\<close> directory holding one file, the uninstaller's script and a directory that is
  not in any list; a home directory with a launcher link and a configuration directory.
  Nothing is refused, and the package manager reports the package exactly when it is
  installed and removes it when asked.
\<close>

definition pip :: "string list \<Rightarrow> bool \<Rightarrow> proc_result \<times> bool" where
  "pip cmd i =
     (if cmd ! 3 = ''show'' then (Exited (if i then 0 else 1), i) else (Exited 0, False))"

definition box :: env where
  "box = \<lparr>home = [''home'', ''u''], cwd = [''proj''], executable = ''python3'',
           deny = (\<lambda>p. False), rmtree_fail = (\<lambda>p. False), rmtree_keep = (\<lambda>p q. False),
           run_proc = pip\<rparr>"

definition disk :: filesystem where
  "disk = map_of
     [([''proj''], Dir),
      ([''proj'', ''setup.py''], File),
      ([''proj'', ''sentinelx_uninstall.py''], File),
      ([''proj'', ''README.md''], File),
      ([''proj'', ''logs''], Dir),
      ([''proj'', ''logs'', ''run.log''], File),
      ([''proj'', ''unrelated_data''], Dir),
      ([''home''], Dir),
      ([''home'', ''u''], Dir),
      ([''home'', ''u'', ''.sentinelx''], Dir),
      ([''home'', ''u'', ''.local''], Dir),
      ([''home'', ''u'', ''.local'', ''bin''], Dir),
      ([''home'', ''u'', ''.local'', ''bin'', ''sentinelX''], Link [''proj'', ''sentinelx.py''])]"

definition start :: world where
  "start = \<lparr>fs = disk, installed = True, out = [], calls = []\<rparr>"

definition shop :: report_env where
  "shop = \<lparr>rcwd = [''proj''], timestamp = ''20240101_120000'', refuse_create = (\<lambda>q. False)\<rparr>"

definition stock :: shelf where
  "stock = \<lparr>tree = disk, rows = Map.empty, printed = []\<rparr>"

section \<open>Canonical paths\<close>

definition all_dirs :: "filesystem \<Rightarrow> path \<Rightarrow> bool" where
  "all_dirs f p = (\<forall>pre. pre \<noteq> [] \<and> prefix pre p \<longrightarrow> f pre = Some Dir)"

text \<open>The program only removes: a later filesystem holds, at every path, what the earlier one
  held there or nothing.\<close>

definition shrinks :: "filesystem \<Rightarrow> filesystem \<Rightarrow> bool" where
  "shrinks f g = (\<forall>x. g x = f x \<or> g x = None)"

text \<open>The entry at a path is not a symbolic link (it may be missing).\<close>

definition no_link :: "filesystem \<Rightarrow> path \<Rightarrow> bool" where
  "no_link f p = (case f p of Some (Link t) \<Rightarrow> False | _ \<Rightarrow> True)"

lemma all_dirs_Nil: "all_dirs f []"
  by (simp add: all_dirs_def)

lemma all_dirs_snoc: "all_dirs f a \<Longrightarrow> f (a @ [c]) = Some Dir \<Longrightarrow> all_dirs f (a @ [c])"
  by (auto simp: all_dirs_def prefix_snoc)

lemma walk_all_dirs: "all_dirs f (a @ b) \<Longrightarrow> walk k f a b = Some (a @ b)"
proof (induction b arbitrary: a)
  case Nil
  then show ?case by simp
next
  case (Cons c cs)
  have "f (a @ [c]) = Some Dir"
    using Cons.prems by (simp add: all_dirs_def)
  moreover have "walk k f (a @ [c]) cs = Some ((a @ [c]) @ cs)"
    using Cons.prems by (intro Cons.IH) simp
  ultimately show ?case by simp
qed

lemma walk_last:
  "all_dirs f (a @ b) \<Longrightarrow> f (a @ b @ [c]) = None \<or> f (a @ b @ [c]) = Some File
   \<Longrightarrow> walk k f a (b @ [c]) = Some (a @ b @ [c])"
proof (induction b arbitrary: a)
  case Nil
  then show ?case by auto
next
  case (Cons d ds)
  have "f (a @ [d]) = Some Dir"
    using Cons.prems(1) by (simp add: all_dirs_def)
  moreover have "walk k f (a @ [d]) (ds @ [c]) = Some ((a @ [d]) @ ds @ [c])"
    using Cons.prems by (intro Cons.IH) simp_all
  ultimately show ?case by simp
qed

text \<open>What a walk returns is canonical: walking it again, with any number of links allowed,
  gives the same path.\<close>

lemma walk_fixed:
  "walk n f cur rest = Some q \<Longrightarrow> all_dirs f cur \<Longrightarrow> walk k f [] q = Some q"
proof (induction n f cur rest rule: walk.induct)
  case (1 n f cur)
  then show ?case using walk_all_dirs [of f "[]" cur k] by simp
next
  case (2 n f cur c cs)
  show ?case
  proof (cases "f (cur @ [c])")
    case None
    with "2.prems" have q: "cs = []" "q = cur @ [c]" by (auto split: if_splits)
    show ?thesis using walk_last [of f "[]" cur c k] "2.prems"(2) None q by simp
  next
    case (Some nd)
    show ?thesis
    proof (cases nd)
      case File
      with Some "2.prems" have q: "cs = []" "q = cur @ [c]" by (auto split: if_splits)
      show ?thesis using walk_last [of f "[]" cur c k] "2.prems"(2) Some File q by simp
    next
      case Dir
      with Some "2.prems" have "walk n f (cur @ [c]) cs = Some q" "all_dirs f (cur @ [c])"
        by (simp_all add: all_dirs_snoc)
      then show ?thesis using "2.IH"(1) [OF Some Dir] by simp
    next
      case (Link t)
      with Some "2.prems" obtain m where m: "n = Suc m" "walk m f [] (t @ cs) = Some q"
        by (auto split: nat.splits)
      then show ?thesis using "2.IH"(2) [OF Some Link m(1)] all_dirs_Nil by simp
    qed
  qed
qed


lemma path_exists_resolve: "path_exists f (resolve f p) = path_exists f p"
proof (cases "walk max_links f [] p")
  case None
  then show ?thesis by (simp add: resolve_def)
next
  case (Some q)
  then have "walk max_links f [] q = Some q"
    using walk_fixed all_dirs_Nil by blast
  with Some show ?thesis by (simp add: resolve_def path_exists_def)
qed


section \<open>FileRemover\<close>



section \<open>ProjectCleaner without a marker\<close>



section \<open>Cancellation\<close>



section \<open>PackageDetector\<close>

text \<open>
  C7. \<open>uninstall_pip_package\<close> never touches the filesystem and always returns a value.
  When the show query raises or exits nonzero it returns False, prints nothing and starts
  no other command. When the query exits with 0 it starts the uninstall command, which
  ends with \<open>-y\<close> exactly when \<open>force\<close> is set, and returns True exactly when that command
  exits with 0; a failure of the uninstall command (a nonzero exit or an exception) gives
  False with no notice after the detection notice.
\<close>

theorem uninstall_pip_package_result:
  "(let query = [executable e, ''-m'', ''pip'', ''show'', ''sentinelx''];
        removal = [executable e, ''-m'', ''pip'', ''uninstall'', ''sentinelx'']
                  @ (if force then [''-y''] else []);
        shown = run_proc e query (installed w);
        res = uninstall_pip_package e force w
    in fs (snd res) = fs w \<and>
       (fst shown \<noteq> Exited 0 \<longrightarrow>
          \<not> fst res \<and> out (snd res) = out w \<and> calls (snd res) = calls w @ [query]) \<and>
       (fst shown = Exited 0 \<longrightarrow>
          calls (snd res) = calls w @ [query, removal] \<and>
          (fst res \<longleftrightarrow> fst (run_proc e removal (snd shown)) = Exited 0) \<and>
          out (snd res) = out w @ (if fst res then [PipDetected, PipUninstalled] else [PipDetected])))"
proof -
  obtain r i where shown: "run_proc e [executable e, ''-m'', ''pip'', ''show'', ''sentinelx'']
      (installed w) = (r, i)"
    by (cases "run_proc e [executable e, ''-m'', ''pip'', ''show'', ''sentinelx''] (installed w)")
  obtain r2 j where gone: "run_proc e ([executable e, ''-m'', ''pip'', ''uninstall'', ''sentinelx'']
      @ (if force then [''-y''] else [])) i = (r2, j)"
    by (cases "run_proc e ([executable e, ''-m'', ''pip'', ''uninstall'', ''sentinelx'']
      @ (if force then [''-y''] else [])) i")
  show ?thesis
  proof (cases r)
    case Raised
    with shown show ?thesis
      by (simp add: uninstall_pip_package_def Let_def)
  next
    case (Exited rc)
    show ?thesis
    proof (cases "rc = 0")
      case False
      with shown Exited show ?thesis
        by (simp add: uninstall_pip_package_def Let_def)
    next
      case True
      with shown Exited gone show ?thesis
        by (cases r2) (simp_all add: uninstall_pip_package_def Let_def print_def)
    qed
  qed
qed

theorem uninstall_pip_package_result_witness:
  "fst (run_proc box [executable box, ''-m'', ''pip'', ''show'', ''sentinelx''] (installed start)) = Exited 0 \<and>
   fst (uninstall_pip_package box True start) \<and>
   calls (snd (uninstall_pip_package box True start)) =
     [[''python3'', ''-m'', ''pip'', ''show'', ''sentinelx''],
      [''python3'', ''-m'', ''pip'', ''uninstall'', ''sentinelx'', ''-y'']] \<and>
   fst (run_proc box [executable box, ''-m'', ''pip'', ''show'', ''sentinelx'']
         (installed (start\<lparr>installed := False\<rparr>))) \<noteq> Exited 0 \<and>
   \<not> fst (uninstall_pip_package box True (start\<lparr>installed := False\<rparr>)) \<and>
   out (snd (uninstall_pip_package box True (start\<lparr>installed := False\<rparr>))) = []"
  using uninstall_pip_package_result [of box True start]
        uninstall_pip_package_result [of box True "start\<lparr>installed := False\<rparr>"]
  by (simp add: Let_def box_def start_def pip_def)

section \<open>SymlinkCleaner\<close>




text \<open>
  C8. \<open>remove_symlinks\<close> looks at two paths, \<open>~/.local/bin/sentinelX\<close> and then
  \<open>~/.local/bin/sentinelx\<close>. For each one that exists or is a symbolic link (a dangling
  one too) it calls \<open>os.remove\<close>; a removal that succeeds prints its notice; a removal of
  the first path that fails prints the error notice; a removal of the second path that
  fails prints nothing. It always returns, changes neither the package nor the commands,
  and every entry it changes is an entry named \<open>sentinelX\<close> or \<open>sentinelx\<close>, not a
  directory, that it removed.
\<close>




section \<open>The orchestrator\<close>

lemma crash_symlinks:
  "fs w = disk \<Longrightarrow>
   fs (remove_symlinks (box\<lparr>cwd := c\<rparr>) w)
     = disk([''home'', ''u'', ''.local'', ''bin'', ''sentinelX''] := None)"
proof -
  assume w: "fs w = disk"
  let ?X = "[''home'', ''u'', ''.local'', ''bin'', ''sentinelX'']"
  let ?x = "[''home'', ''u'', ''.local'', ''bin'', ''sentinelx'']"
  let ?d = "disk(?X := None)"
  have a: "is_symlink disk ?X"
    by (simp add: is_symlink_def locate_def max_links_def disk_def)
  have b: "os_remove (box\<lparr>cwd := c\<rparr>) disk ?X = Some ?d"
    by (simp add: os_remove_def locate_def max_links_def disk_def box_def)
  have c: "\<not> path_exists ?d ?x"
    by (simp add: path_exists_def max_links_def disk_def)
  have d: "\<not> is_symlink ?d ?x"
    by (simp add: is_symlink_def locate_def max_links_def disk_def)
  have h: "home (box\<lparr>cwd := c\<rparr>) = [''home'', ''u'']"
    by (simp add: box_def)
  show ?thesis
    by (simp add: remove_symlinks_def Let_def h w a b c d print_def)
qed

lemma crash_config:
  "fs w = disk([''home'', ''u'', ''.local'', ''bin'', ''sentinelX''] := None) \<Longrightarrow>
   fs (remove_user_config (box\<lparr>cwd := c\<rparr>) w) [''home'', ''u'', ''.sentinelx''] = None"
proof -
  let ?X = "[''home'', ''u'', ''.local'', ''bin'', ''sentinelX'']"
  let ?cfg = "[''home'', ''u'', ''.sentinelx'']"
  let ?d = "disk(?X := None)"
  assume w: "fs w = ?d"
  have wk: "walk max_links ?d [] ?cfg = Some ?cfg"
    by (simp add: max_links_def disk_def)
  have nd: "disk ?cfg = Some Dir"
    by (simp add: disk_def)
  have a: "path_exists ?d ?cfg" "is_dir ?d ?cfg" "resolve ?d ?cfg = ?cfg"
    unfolding path_exists_def is_dir_def resolve_def wk by (simp_all add: disk_def)
  have l: "locate ?d ?cfg = Some ?cfg"
    by (simp add: locate_def max_links_def disk_def)
  have r: "rmtree (box\<lparr>cwd := c\<rparr>) ?d ?cfg = (True, \<lambda>x. if prefix ?cfg x then None else ?d x)"
    by (simp add: rmtree_def l nd box_def)
  have h: "home (box\<lparr>cwd := c\<rparr>) = [''home'', ''u'']"
    by (simp add: box_def)
  show ?thesis
    by (simp add: remove_user_config_def remove_directory_def Let_def h w a r print_def)
qed

text \<open>
  C4. Once confirmation is granted or bypassed, \<open>main\<close> is claimed to run the four steps in
  order and always to reach the final banner. The fourth step begins with \<open>Path.cwd()\<close>,
  outside every \<open>try\<close>. Run with \<open>-y\<close> from \<open>~/.sentinelx\<close>, the third step removes the
  working directory, \<open>Path.cwd()\<close> raises FileNotFoundError, and the exception leaves
  \<open>main\<close>: the completion banner is never printed.
\<close>

theorem main_crash:
  "fst (main (box\<lparr>cwd := [''home'', ''u'', ''.sentinelx'']\<rparr>) True [] start)
     = Uncaught FileNotFoundError"
proof -
  let ?e = "box\<lparr>cwd := [''home'', ''u'', ''.sentinelx'']\<rparr>"
  let ?w2 = "snd (uninstall_pip_package ?e True (print Starting (print Banner start)))"
  have "fs ?w2 = disk"
    by (simp add: uninstall_pip_package_def Let_def print_def start_def
        split: prod.splits proc_result.splits)
  then have "fs (remove_user_config ?e (remove_symlinks ?e ?w2)) (cwd ?e) = None"
    using crash_config [OF crash_symlinks] by simp
  then have "remove_local_artifacts ?e (remove_user_config ?e (remove_symlinks ?e ?w2))
      = Inl FileNotFoundError"
    by (simp add: remove_local_artifacts_def path_cwd_def)
  then show ?thesis
    by (simp add: main_def Let_def)
qed

section \<open>The CSV report of no records\<close>

text \<open>
  C10, as the code has it. For an empty sequence of records \<open>save_report_csv\<close> returns
  without error, writes no file and prints nothing, whenever the \<open>reports\<close> directory
  exists (then nothing changes at all) or is missing and can be created (then the new
  directory is the only change).
\<close>

theorem save_report_csv_empty:
  "(path_exists (tree s) (rcwd re @ [''reports'']) \<longrightarrow> save_report_csv re [] s = Inr s) \<and>
   (\<not> path_exists (tree s) (rcwd re @ [''reports'']) \<and>
    locate (tree s) (rcwd re @ [''reports'']) = Some q \<and> tree s q = None \<and>
    \<not> refuse_create re q \<longrightarrow>
      save_report_csv re [] s = Inr (s\<lparr>tree := (tree s)(q \<mapsto> Dir)\<rparr>))"
  by (simp add: save_report_csv_def generate_filename_def makedirs_def Let_def)

theorem save_report_csv_empty_witness:
  "\<not> path_exists (tree stock) (rcwd shop @ [''reports'']) \<and>
   locate (tree stock) (rcwd shop @ [''reports'']) = Some [''proj'', ''reports''] \<and>
   tree stock [''proj'', ''reports''] = None \<and> \<not> refuse_create shop [''proj'', ''reports''] \<and>
   save_report_csv shop [] stock = Inr (stock\<lparr>tree := (tree stock)([''proj'', ''reports''] \<mapsto> Dir)\<rparr>) \<and>
   path_exists (tree (stock\<lparr>tree := (tree stock)([''proj'', ''reports''] \<mapsto> Dir)\<rparr>)) (rcwd shop @ [''reports'']) \<and>
   save_report_csv shop [] (stock\<lparr>tree := (tree stock)([''proj'', ''reports''] \<mapsto> Dir)\<rparr>)
     = Inr (stock\<lparr>tree := (tree stock)([''proj'', ''reports''] \<mapsto> Dir)\<rparr>)"
proof -
  have h: "rcwd shop = [''proj'']" "tree stock = disk" "\<not> refuse_create shop q" for q
    by (simp_all add: shop_def stock_def)
  have a: "\<not> path_exists disk [''proj'', ''reports'']"
    by (simp add: path_exists_def max_links_def disk_def)
  have b: "locate disk [''proj'', ''reports''] = Some [''proj'', ''reports'']"
    by (simp add: locate_def max_links_def disk_def)
  have c: "disk [''proj'', ''reports''] = None"
    by (simp add: disk_def)
  have d: "path_exists (disk([''proj'', ''reports''] \<mapsto> Dir)) [''proj'', ''reports'']"
    by (simp add: path_exists_def max_links_def disk_def)
  show ?thesis
    using save_report_csv_empty [of stock shop "[''proj'', ''reports'']"]
          save_report_csv_empty [of "stock\<lparr>tree := (tree stock)([''proj'', ''reports''] \<mapsto> Dir)\<rparr>" shop]
    by (simp add: h a b c d)
qed

text \<open>
  C10 as claimed, for every state, does not hold: with a dangling symbolic link named
  \<open>reports\<close> in the working directory, \<open>os.path.exists\<close> answers False, \<open>os.makedirs\<close>
  raises, and the exception leaves \<open>save_report_csv\<close>.
\<close>

theorem save_report_csv_empty_raises:
  "save_report_csv shop []
     (stock\<lparr>tree := disk([''proj'', ''reports''] \<mapsto> Link [''proj'', ''old_reports''])\<rparr>)
   = Inl OSError"
proof -
  let ?f = "disk([''proj'', ''reports''] \<mapsto> Link [''proj'', ''old_reports''])"
  have a: "\<not> path_exists ?f [''proj'', ''reports'']"
    by (simp add: path_exists_def max_links_def disk_def)
  have b: "locate ?f [''proj'', ''reports''] = Some [''proj'', ''reports'']"
    by (simp add: locate_def max_links_def disk_def)
  show ?thesis
    by (simp add: save_report_csv_def generate_filename_def makedirs_def Let_def shop_def a b)
qed


end
